theory Spec2Isabelle
  imports Complex_Main "HOL-Library.AList"
begin

section \<open>Kopek: the trade ledger, the price monitor and the strategy engine\<close>

text \<open>
  The development embeds \<^verbatim>\<open>trade_manager.py\<close>, the parts of \<^verbatim>\<open>binance_ws.py\<close> and
  \<^verbatim>\<open>polymarket_client.py\<close> that the strategy reads, and the decision functions of
  \<^verbatim>\<open>strategy.py\<close>.

  Conventions of the embedding.
  \<^item> Python floats (prices, sizes, balances, timestamps) are the type \<open>real\<close>: rounding is
    not modelled.
  \<^item> A Python \<open>dict\<close> that is iterated is an association list in insertion order; \<open>d[k]\<close> is
    \<open>map_of\<close> (a missing key raises \<open>KeyError\<close>), \<open>d[k] = v\<close> is \<open>AList.update\<close>, which
    replaces in place or appends, and \<open>d.values()\<close> is \<open>map snd\<close>.
  \<^item> A method that mutates \<open>self\<close> and may raise returns the state after the call together
    with \<open>Inl\<close> of the exception or \<open>Inr\<close> of the value returned.
  \<^item> \<open>time.time()\<close> is an argument \<open>now\<close>; a network read is an argument holding the
    response, \<open>None\<close> where the client catches the failure and returns \<open>None\<close>.
  \<^item> Log lines and Telegram messages are not modelled: they change no state.
\<close>

subsection \<open>Exceptions\<close>

datatype error =
    KeyError string     \<comment> \<open>a dictionary read of a missing key\<close>
  | ZeroDivisionError   \<comment> \<open>a float division by zero\<close>
  | OrderError          \<comment> \<open>any exception raised while an order is signed or posted\<close>

subsection \<open>\<^verbatim>\<open>polymarket_client.py\<close>: markets and order books\<close>

text \<open>
  \<open>MarketInfo\<close>, with the slots the strategy reads. \<open>Trade\<close> below has fields of the same
  names, so the fields of a market are written with the record's name in front.
\<close>

record MarketInfo =
  condition_id :: string
  asset :: string
  direction :: string
  market_type :: string
  yes_token_id :: string
  no_token_id :: string
  close_time :: real
  open_time_str :: string
  close_time_str :: string

definition seconds_to_close :: "MarketInfo \<Rightarrow> real \<Rightarrow> real" where
  "seconds_to_close m now = max 0 (close_time m - now)"

definition market_label_of :: "MarketInfo \<Rightarrow> string" where
  "market_label_of m =
     (let dur = (if MarketInfo.market_type m = ''5m'' then ''5 Minutes'' else ''15 Minutes'')
      in MarketInfo.asset m @ '' Up or Down - '' @ dur)"

definition is_expired :: "MarketInfo \<Rightarrow> real \<Rightarrow> bool" where
  "is_expired m now = (now \<ge> close_time m)"

text \<open>
  The JSON body of \<^verbatim>\<open>GET /book\<close>, with prices and sizes already converted by \<open>float\<close>.
  A read of the book is an \<open>orderbook option\<close>: \<open>None\<close> when the request or the parsing raised,
  which both readers catch.
\<close>

record orderbook =
  book_bids :: "(real \<times> real) list"
  book_asks :: "(real \<times> real) list"

definition get_best_ask :: "orderbook option \<Rightarrow> real option" where
  "get_best_ask resp =
     (case resp of
        None \<Rightarrow> None
      | Some book \<Rightarrow> (case book_asks book of [] \<Rightarrow> None | a # _ \<Rightarrow> Some (fst a)))"

record depth =
  bids :: "(real \<times> real) list"
  asks :: "(real \<times> real) list"
  spread :: "real option"

definition get_orderbook_depth :: "orderbook option \<Rightarrow> depth" where
  "get_orderbook_depth resp =
     (case resp of
        None \<Rightarrow> \<lparr>bids = [], asks = [], spread = None\<rparr>
      | Some book \<Rightarrow>
          (let top_bids = take 5 (book_bids book);
               top_asks = take 5 (book_asks book);
               sp = (case (top_asks, top_bids) of
                       (a # _, b # _) \<Rightarrow> Some (fst a - fst b)
                     | _ \<Rightarrow> None)
           in \<lparr>bids = top_bids, asks = top_asks, spread = sp\<rparr>))"

text \<open>
  \<open>round(x, 2)\<close> on the reals: to the nearest hundredth, a tie going to the even neighbour.
\<close>

definition round_half_even :: "real \<Rightarrow> int" where
  "round_half_even x =
     (let f = \<lfloor>x\<rfloor>; d = x - of_int f
      in if d < 1 / 2 then f else if d > 1 / 2 then f + 1 else if even f then f else f + 1)"

definition round2 :: "real \<Rightarrow> real" where
  "round2 x = of_int (round_half_even (x * 100)) / 100"

text \<open>
  The dictionary an order placement returns, with its keys \<open>order_id\<close>, \<open>price\<close> and
  \<open>size\<close>.
\<close>

record placed =
  placed_order_id :: string
  placed_price :: real
  placed_size :: real

text \<open>
  \<open>buy_yes\<close> and \<open>sell_yes\<close>. The argument \<open>post\<close> is what \<open>init_clob\<close>, \<open>create_order\<close> and
  \<open>post_order\<close> do: raise, or answer with an order id. Which exception comes first when
  several would be raised is not kept apart, since the callers catch them all alike.
  \<open>sell_yes\<close> reads only the YES token of its market argument, which is passed here directly.
\<close>

definition buy_yes :: "MarketInfo \<Rightarrow> real \<Rightarrow> real \<Rightarrow> error + string \<Rightarrow> error + placed" where
  "buy_yes market price' size_usdc' post =
     (case post of
        Inl e \<Rightarrow> Inl e
      | Inr oid \<Rightarrow>
          if price' = 0 then Inl ZeroDivisionError
          else Inr \<lparr>placed_order_id = oid, placed_price = price',
                    placed_size = round2 (size_usdc' / price')\<rparr>)"

definition sell_yes :: "string \<Rightarrow> real \<Rightarrow> real \<Rightarrow> string \<Rightarrow> error + string \<Rightarrow> error + placed" where
  "sell_yes yes_token price' size_shares order_type post =
     (case post of
        Inl e \<Rightarrow> Inl e
      | Inr oid \<Rightarrow> Inr \<lparr>placed_order_id = oid, placed_price = price', placed_size = size_shares\<rparr>)"

text \<open>
  \<open>check_market_resolved\<close> answers with the upper-cased outcome of the winning token, or
  \<open>None\<close> while the market is pending or when the request failed. It is an argument of the
  outcome pass below, a function of the condition id.
\<close>

subsection \<open>The reasons of a cut-loss\<close>

text \<open>
  \<open>_check_cutloss\<close> builds its reason with an f-string. A reason is represented by the branch
  that built it and the numbers formatted into it.
\<close>

datatype cutloss_why =
    PolymarketDropped real real        \<comment> \<open>the quote read and \<open>CUTLOSS_PM_PRICE\<close>\<close>
  | BinanceDropped string real real    \<comment> \<open>asset, change and \<open>CUTLOSS_BINANCE_PCT\<close>\<close>
  | BinanceRose string real real

subsection \<open>\<^verbatim>\<open>trade_manager.py\<close>: the Trade dataclass\<close>

record Trade =
  trade_id :: string
  condition_id :: string
  order_id :: string
  asset :: string
  direction :: string
  market_type :: string
  market_label :: string
  open_time_str :: string
  close_time_str :: string
  buy_price :: real
  shares :: real
  size_usdc :: real
  yes_token_id :: string
  no_token_id :: string
  close_timestamp :: real
  entry_time :: real
  binance_entry_price :: real
  status :: string
  sell_price :: "real option"
  pnl_usdc :: "real option"
  resolved_at :: "real option"
  cutloss_reason :: "cutloss_why option"

subsection \<open>\<^verbatim>\<open>trade_manager.py\<close>: the TradeManager\<close>

record TradeManager =
  trades :: "(string \<times> Trade) list"
  balance :: real
  trade_counter :: nat

text \<open>The persisted document of \<^verbatim>\<open>trades.json\<close>; every key may be missing, as \<open>data.get\<close> allows.\<close>

record document =
  doc_balance :: "real option"
  doc_counter :: "nat option"
  doc_trades :: "Trade list option"

definition init_manager :: "real \<Rightarrow> TradeManager" where
  "init_manager starting_balance =
     \<lparr>trades = [], balance = starting_balance, trade_counter = 0\<rparr>"

fun load_trades :: "(string \<times> Trade) list \<Rightarrow> Trade list \<Rightarrow> (string \<times> Trade) list" where
  "load_trades d [] = d"
| "load_trades d (t # raws) = load_trades (AList.update (trade_id t) t d) raws"

text \<open>
  \<open>_load\<close>: the argument is the content of the file, \<open>None\<close> when the file does not exist.
  The file is one that parses into trades; on any other file \<open>_load\<close> logs the error and stops
  where it is.
\<close>

definition load :: "TradeManager \<Rightarrow> document option \<Rightarrow> TradeManager" where
  "load tm file =
     (case file of
        None \<Rightarrow> tm
      | Some data \<Rightarrow>
          \<lparr>trades = load_trades (trades tm) (case doc_trades data of None \<Rightarrow> [] | Some ts \<Rightarrow> ts),
           balance = (case doc_balance data of None \<Rightarrow> balance tm | Some b \<Rightarrow> b),
           trade_counter = (case doc_counter data of None \<Rightarrow> 0 | Some c \<Rightarrow> c)\<rparr>)"

text \<open>\<open>TradeManager.__init__\<close>: the fresh fields, then \<open>_load\<close>.\<close>

definition new_manager :: "real \<Rightarrow> document option \<Rightarrow> TradeManager" where
  "new_manager starting_balance file = load (init_manager starting_balance) file"

text \<open>
  \<open>_save\<close>: the document written to the file. Every mutating method below ends with this
  write; a failure of the write is logged and swallowed, so the value a method returns and the
  state it leaves in memory do not depend on it.
\<close>

definition save :: "TradeManager \<Rightarrow> document" where
  "save tm =
     \<lparr>doc_balance = Some (balance tm),
      doc_counter = Some (trade_counter tm),
      doc_trades = Some (map snd (trades tm))\<rparr>"

text \<open>
  \<open>_new_id\<close> formats the incremented counter with \<^verbatim>\<open>f"T{n:04d}"\<close>: the decimal digits of
  \<open>n\<close>, padded with zeros on the left to at least four characters. The counter starts at 0 and
  is only incremented, so it is a natural number.
\<close>

definition digit_char :: "nat \<Rightarrow> char" where
  "digit_char d = char_of (48 + d)"

fun digits :: "nat \<Rightarrow> string" where
  "digits n = (if n < 10 then [digit_char n] else digits (n div 10) @ [digit_char (n mod 10)])"

declare digits.simps [simp del]

definition format_04d :: "nat \<Rightarrow> string" where
  "format_04d n = replicate (4 - length (digits n)) (CHR ''0'') @ digits n"

definition trade_id_of :: "nat \<Rightarrow> string" where
  "trade_id_of n = CHR ''T'' # format_04d n"

definition new_id :: "TradeManager \<Rightarrow> TradeManager \<times> string" where
  "new_id tm =
     (let c = trade_counter tm + 1
      in (tm\<lparr>trade_counter := c\<rparr>, trade_id_of c))"

definition open_trade ::
  "TradeManager \<Rightarrow> string \<Rightarrow> string \<Rightarrow> string \<Rightarrow> string \<Rightarrow> string \<Rightarrow> string \<Rightarrow> string \<Rightarrow> string
     \<Rightarrow> real \<Rightarrow> real \<Rightarrow> real \<Rightarrow> string \<Rightarrow> string \<Rightarrow> real \<Rightarrow> real \<Rightarrow> real
     \<Rightarrow> TradeManager \<times> Trade" where
  "open_trade tm condition_id' order_id' asset' direction' market_type' market_label'
       open_time_str' close_time_str' buy_price' shares' size_usdc' yes_token_id' no_token_id'
       close_timestamp' binance_entry_price' now =
     (let (tm1, tid) = new_id tm;
          trade = \<lparr>trade_id = tid,
                   condition_id = condition_id',
                   order_id = order_id',
                   asset = asset',
                   direction = direction',
                   market_type = market_type',
                   market_label = market_label',
                   open_time_str = open_time_str',
                   close_time_str = close_time_str',
                   buy_price = buy_price',
                   shares = shares',
                   size_usdc = size_usdc',
                   yes_token_id = yes_token_id',
                   no_token_id = no_token_id',
                   close_timestamp = close_timestamp',
                   entry_time = now,
                   binance_entry_price = binance_entry_price',
                   status = ''open'',
                   sell_price = None,
                   pnl_usdc = None,
                   resolved_at = None,
                   cutloss_reason = None\<rparr>;
          tm2 = tm1\<lparr>balance := balance tm1 - size_usdc'\<rparr>;
          tm3 = tm2\<lparr>trades := AList.update (trade_id trade) trade (trades tm2)\<rparr>
      in (tm3, trade))"

text \<open>
  The three closing methods read \<open>self.trades[trade_id]\<close> first, which raises \<open>KeyError\<close> when
  the id is not a key, before anything is changed. They then assign to the fields of the trade
  object, which the dictionary holds by reference: the entry under the key is replaced.
\<close>

definition resolve_win :: "TradeManager \<Rightarrow> string \<Rightarrow> real \<Rightarrow> TradeManager \<times> (error + Trade)" where
  "resolve_win tm tid now =
     (case map_of (trades tm) tid of
        None \<Rightarrow> (tm, Inl (KeyError tid))
      | Some t \<Rightarrow>
          (let t1 = t\<lparr>sell_price := Some 1\<rparr>;
               t2 = t1\<lparr>pnl_usdc := Some (shares t1 * (1 - buy_price t1))\<rparr>;
               t3 = t2\<lparr>status := ''win''\<rparr>;
               t4 = t3\<lparr>resolved_at := Some now\<rparr>;
               tm1 = tm\<lparr>trades := AList.update tid t4 (trades tm)\<rparr>;
               tm2 = tm1\<lparr>balance := balance tm1 + shares t4\<rparr>
           in (tm2, Inr t4)))"

definition resolve_loss :: "TradeManager \<Rightarrow> string \<Rightarrow> real \<Rightarrow> TradeManager \<times> (error + Trade)" where
  "resolve_loss tm tid now =
     (case map_of (trades tm) tid of
        None \<Rightarrow> (tm, Inl (KeyError tid))
      | Some t \<Rightarrow>
          (let t1 = t\<lparr>sell_price := Some 0\<rparr>;
               t2 = t1\<lparr>pnl_usdc := Some (- (size_usdc t1))\<rparr>;
               t3 = t2\<lparr>status := ''loss''\<rparr>;
               t4 = t3\<lparr>resolved_at := Some now\<rparr>;
               tm1 = tm\<lparr>trades := AList.update tid t4 (trades tm)\<rparr>
           in (tm1, Inr t4)))"

definition resolve_cutloss ::
  "TradeManager \<Rightarrow> string \<Rightarrow> real \<Rightarrow> cutloss_why \<Rightarrow> real \<Rightarrow> TradeManager \<times> (error + Trade)" where
  "resolve_cutloss tm tid sell_price' reason now =
     (case map_of (trades tm) tid of
        None \<Rightarrow> (tm, Inl (KeyError tid))
      | Some t \<Rightarrow>
          (let payout = shares t * sell_price';
               t1 = t\<lparr>sell_price := Some sell_price'\<rparr>;
               t2 = t1\<lparr>pnl_usdc := Some (payout - size_usdc t1)\<rparr>;
               t3 = t2\<lparr>status := ''cutloss''\<rparr>;
               t4 = t3\<lparr>resolved_at := Some now\<rparr>;
               t5 = t4\<lparr>cutloss_reason := Some reason\<rparr>;
               tm1 = tm\<lparr>trades := AList.update tid t5 (trades tm)\<rparr>;
               tm2 = tm1\<lparr>balance := balance tm1 + payout\<rparr>
           in (tm2, Inr t5)))"

definition get_open_trades :: "TradeManager \<Rightarrow> Trade list" where
  "get_open_trades tm = filter (\<lambda>t. status t = ''open'') (map snd (trades tm))"

definition get_open_by_condition :: "TradeManager \<Rightarrow> string \<Rightarrow> Trade option" where
  "get_open_by_condition tm cid =
     find (\<lambda>t. condition_id t = cid \<and> status t = ''open'') (map snd (trades tm))"

definition already_traded :: "TradeManager \<Rightarrow> string \<Rightarrow> bool" where
  "already_traded tm cid = list_ex (\<lambda>t. condition_id t = cid) (map snd (trades tm))"

definition profit_cents_per_share :: "Trade \<Rightarrow> real" where
  "profit_cents_per_share trade =
     ((case sell_price trade of None \<Rightarrow> 0 | Some s \<Rightarrow> s) - buy_price trade) * 100"

definition set_balance :: "TradeManager \<Rightarrow> real \<Rightarrow> TradeManager" where
  "set_balance tm b = tm\<lparr>balance := b\<rparr>"

subsection \<open>\<^verbatim>\<open>binance_ws.py\<close>: the price monitor\<close>

text \<open>
  The three dictionaries of \<open>BinancePriceMonitor\<close>, keyed by asset. None of them is iterated,
  so each is a map. No callback is ever registered in the repository, so \<open>_callbacks\<close> stays
  empty and the monitor's own \<open>_check_cutloss\<close>, which only calls them, does nothing.
\<close>

record BinancePriceMonitor =
  prices :: "string \<rightharpoonup> real"
  price_at_buy :: "string \<rightharpoonup> real"
  price_history :: "string \<rightharpoonup> (real \<times> real) list"

definition init_monitor :: BinancePriceMonitor where
  "init_monitor = \<lparr>prices = Map.empty, price_at_buy = Map.empty, price_history = Map.empty\<rparr>"

definition get_price :: "BinancePriceMonitor \<Rightarrow> string \<Rightarrow> real option" where
  "get_price mon a = prices mon a"

definition set_reference_price :: "BinancePriceMonitor \<Rightarrow> string \<Rightarrow> BinancePriceMonitor" where
  "set_reference_price mon a =
     (case prices mon a of
        None \<Rightarrow> mon
      | Some p \<Rightarrow> mon\<lparr>price_at_buy := (price_at_buy mon)(a \<mapsto> p)\<rparr>)"

definition clear_reference_price :: "BinancePriceMonitor \<Rightarrow> string \<Rightarrow> BinancePriceMonitor" where
  "clear_reference_price mon a = mon\<lparr>price_at_buy := (price_at_buy mon)(a := None)\<rparr>"

definition get_change_pct :: "BinancePriceMonitor \<Rightarrow> string \<Rightarrow> real option" where
  "get_change_pct mon a =
     (case (prices mon a, price_at_buy mon a) of
        (Some current, Some ref) \<Rightarrow> if ref = 0 then None else Some ((current - ref) / ref)
      | _ \<Rightarrow> None)"

definition process_tick :: "BinancePriceMonitor \<Rightarrow> string \<Rightarrow> real \<Rightarrow> real \<Rightarrow> BinancePriceMonitor" where
  "process_tick mon a p now =
     (let mon1 = mon\<lparr>prices := (prices mon)(a \<mapsto> p)\<rparr>;
          history = (case price_history mon1 a of None \<Rightarrow> [] | Some h \<Rightarrow> h) @ [(now, p)];
          history1 = (if length history > 120 then tl history else history)
      in mon1\<lparr>price_history := (price_history mon1)(a \<mapsto> history1)\<rparr>)"

definition get_1min_trend :: "BinancePriceMonitor \<Rightarrow> string \<Rightarrow> real \<Rightarrow> real option" where
  "get_1min_trend mon a now =
     (let history = (case price_history mon a of None \<Rightarrow> [] | Some h \<Rightarrow> h)
      in if length history < 10 then None
         else
           (let one_min_ago = now - 60;
                old_ticks = map snd (filter (\<lambda>tick. fst tick \<le> one_min_ago) history)
            in if old_ticks = [] then None
               else
                 (let old_price = last old_ticks
                  in case prices mon a of
                       None \<Rightarrow> None
                     | Some current \<Rightarrow>
                         if current = 0 \<or> old_price = 0 then None
                         else Some ((current - old_price) / old_price))))"

subsection \<open>\<^verbatim>\<open>config.py\<close>: the strategy parameters\<close>

record config =
  BUY_THRESHOLD :: real
  ENTRY_SECONDS_5M :: int
  ENTRY_SECONDS_15M :: int
  TRADE_SIZE_USDC :: real
  CUTLOSS_PM_PRICE :: real
  CUTLOSS_BINANCE_PCT :: real

text \<open>The values taken when the environment sets none.\<close>

definition default_config :: config where
  "default_config =
     \<lparr>BUY_THRESHOLD = 0.97, ENTRY_SECONDS_5M = 120, ENTRY_SECONDS_15M = 300,
      TRADE_SIZE_USDC = 10, CUTLOSS_PM_PRICE = 0.80, CUTLOSS_BINANCE_PCT = 0.003\<rparr>"

subsection \<open>\<^verbatim>\<open>strategy.py\<close>: the Strategy\<close>

text \<open>
  The state a \<open>Strategy\<close> works on: its trade manager, its dictionary of watched markets, its
  set of condition ids pending resolution, and the module-level \<open>binance_monitor\<close>.
\<close>

record Strategy =
  tm :: TradeManager
  monitor :: BinancePriceMonitor
  active_markets :: "(string \<times> MarketInfo) list"
  pending_outcomes :: "string set"

text \<open>\<open>Strategy.__init__\<close>: nothing is read from the trade manager.\<close>

definition new_strategy :: "TradeManager \<Rightarrow> BinancePriceMonitor \<Rightarrow> Strategy" where
  "new_strategy trade_manager mon =
     \<lparr>tm = trade_manager, monitor = mon, active_markets = [], pending_outcomes = {}\<rparr>"

definition get_entry_window :: "config \<Rightarrow> string \<Rightarrow> int" where
  "get_entry_window cfg mtype =
     (if mtype = ''5m'' then ENTRY_SECONDS_5M cfg else ENTRY_SECONDS_15M cfg)"

text \<open>
  The reason \<open>_should_enter\<close> returns, by the \<open>return\<close> statement that built it and the values
  formatted into it.
\<close>

datatype entry_reason =
    TooEarly real int
  | TooLate
  | AlreadyTraded
  | NoOrderBook
  | PriceTooLow real real
  | PriceAtOne
  | SpreadTooWide "real option"
  | BinanceDropping string real
  | BinanceRising string real
  | BinanceNoPrice string
  | EntryOK real string "real option"

text \<open>Check 4 of \<open>_should_enter\<close>: \<open>book["spread"] and book["spread"] > 0.05\<close>; \<open>None\<close> and \<open>0.0\<close>
  are false in a condition.\<close>

definition spread_too_wide :: "depth \<Rightarrow> bool" where
  "spread_too_wide book = (case spread book of None \<Rightarrow> False | Some s \<Rightarrow> s \<noteq> 0 \<and> s > 0.05)"

text \<open>Check 5 of \<open>_should_enter\<close>: the reason of the veto, when the trend vetoes the entry.\<close>

definition momentum_veto :: "MarketInfo \<Rightarrow> real option \<Rightarrow> entry_reason option" where
  "momentum_veto market trend =
     (case trend of
        None \<Rightarrow> None
      | Some tr \<Rightarrow>
          if MarketInfo.direction market = ''UP'' \<and> tr < - 0.002
            then Some (BinanceDropping (MarketInfo.asset market) tr)
          else if MarketInfo.direction market = ''DOWN'' \<and> tr > 0.002
            then Some (BinanceRising (MarketInfo.asset market) tr)
          else None)"

text \<open>
  \<open>_should_enter\<close>. \<open>ask_resp\<close> is the book read by \<open>get_best_ask\<close>, \<open>depth_resp\<close> the book read
  next by \<open>get_orderbook_depth\<close>.
\<close>

definition should_enter ::
  "config \<Rightarrow> Strategy \<Rightarrow> MarketInfo \<Rightarrow> real \<Rightarrow> orderbook option \<Rightarrow> orderbook option
     \<Rightarrow> bool \<times> entry_reason" where
  "should_enter cfg st market now ask_resp depth_resp =
     (let seconds_left = seconds_to_close market now;
          window = get_entry_window cfg (MarketInfo.market_type market)
      in if seconds_left > of_int window then (False, TooEarly seconds_left window)
         else if seconds_left \<le> 5 then (False, TooLate)
         else if already_traded (tm st) (MarketInfo.condition_id market) then (False, AlreadyTraded)
         else
           (case get_best_ask ask_resp of
              None \<Rightarrow> (False, NoOrderBook)
            | Some ask \<Rightarrow>
                if ask < BUY_THRESHOLD cfg then (False, PriceTooLow ask (BUY_THRESHOLD cfg))
                else if ask \<ge> 1 then (False, PriceAtOne)
                else
                  (let book = get_orderbook_depth depth_resp
                   in if spread_too_wide book then (False, SpreadTooWide (spread book))
                      else
                        (let trend = get_1min_trend (monitor st) (MarketInfo.asset market) now
                         in case momentum_veto market trend of
                              Some why \<Rightarrow> (False, why)
                            | None \<Rightarrow>
                                (case get_price (monitor st) (MarketInfo.asset market) of
                                   None \<Rightarrow> (False, BinanceNoPrice (MarketInfo.asset market))
                                 | Some binance_price \<Rightarrow>
                                     (True, EntryOK ask (MarketInfo.asset market) trend))))))"

text \<open>
  \<open>_execute_buy\<close>. Every exception of \<open>buy_yes\<close> is caught and the method returns; the trade is
  then recorded, the reference price set and the market added to the pending outcomes.
\<close>

definition execute_buy ::
  "config \<Rightarrow> Strategy \<Rightarrow> MarketInfo \<Rightarrow> real \<Rightarrow> orderbook option \<Rightarrow> error + string \<Rightarrow> Strategy" where
  "execute_buy cfg st market now ask_resp post =
     (case get_best_ask ask_resp of
        None \<Rightarrow> st
      | Some ask \<Rightarrow>
          if ask < BUY_THRESHOLD cfg then st
          else
            (let binance_price =
                   (case get_price (monitor st) (MarketInfo.asset market) of
                      None \<Rightarrow> 0
                    | Some p \<Rightarrow> p)
             in case buy_yes market ask (TRADE_SIZE_USDC cfg) post of
                  Inl e \<Rightarrow> st
                | Inr ord \<Rightarrow>
                    (let (tm1, trade) =
                           open_trade (tm st)
                             (MarketInfo.condition_id market)
                             (placed_order_id ord)
                             (MarketInfo.asset market)
                             (MarketInfo.direction market)
                             (MarketInfo.market_type market)
                             (market_label_of market)
                             (MarketInfo.open_time_str market)
                             (MarketInfo.close_time_str market)
                             ask
                             (placed_size ord)
                             (TRADE_SIZE_USDC cfg)
                             (MarketInfo.yes_token_id market)
                             (MarketInfo.no_token_id market)
                             (close_time market)
                             binance_price
                             now;
                         st1 = st\<lparr>tm := tm1\<rparr>;
                         st2 = st1\<lparr>monitor :=
                                     set_reference_price (monitor st1) (MarketInfo.asset market)\<rparr>
                     in st2\<lparr>pending_outcomes :=
                              insert (MarketInfo.condition_id market) (pending_outcomes st2)\<rparr>)))"

text \<open>
  \<open>_check_cutloss\<close>, of the strategy. \<open>ask_resp\<close> is the book read by \<open>get_best_ask\<close> for the
  YES token of the trade.
\<close>

definition check_cutloss ::
  "config \<Rightarrow> BinancePriceMonitor \<Rightarrow> Trade \<Rightarrow> orderbook option \<Rightarrow> cutloss_why option" where
  "check_cutloss cfg mon trade ask_resp =
     (let ask = get_best_ask ask_resp
      in if (case ask of None \<Rightarrow> False | Some a \<Rightarrow> a < CUTLOSS_PM_PRICE cfg)
           then (case ask of None \<Rightarrow> None
                 | Some a \<Rightarrow> Some (PolymarketDropped a (CUTLOSS_PM_PRICE cfg)))
         else
           (case get_change_pct mon (asset trade) of
              None \<Rightarrow> None
            | Some change_pct \<Rightarrow>
                if direction trade = ''UP'' \<and> change_pct \<le> - CUTLOSS_BINANCE_PCT cfg
                  then Some (BinanceDropped (asset trade) change_pct (CUTLOSS_BINANCE_PCT cfg))
                else if direction trade = ''DOWN'' \<and> change_pct \<ge> CUTLOSS_BINANCE_PCT cfg
                  then Some (BinanceRose (asset trade) change_pct (CUTLOSS_BINANCE_PCT cfg))
                else None))"

text \<open>
  \<open>_execute_cutloss\<close>. \<open>depth_resp\<close> is the book read by \<open>get_orderbook_depth\<close>, \<open>post\<close> what
  the sell order does. A \<open>KeyError\<close> of \<open>resolve_cutloss\<close> is not caught here: the lines after
  it are skipped.
\<close>

definition execute_cutloss ::
  "Strategy \<Rightarrow> Trade \<Rightarrow> cutloss_why \<Rightarrow> real \<Rightarrow> orderbook option \<Rightarrow> error + string
     \<Rightarrow> Strategy \<times> (error + unit)" where
  "execute_cutloss st trade reason now depth_resp post =
     (let book = get_orderbook_depth depth_resp;
          sell_price0 = (case bids book of [] \<Rightarrow> 0.01 | b # _ \<Rightarrow> fst b);
          sell_price1 = max sell_price0 0.01;
          sell_price2 =
            (case sell_yes (yes_token_id trade) sell_price1 (shares trade) ''FOK'' post of
               Inl e \<Rightarrow> 0
             | Inr ord \<Rightarrow> sell_price1);
          (tm1, res) = resolve_cutloss (tm st) (trade_id trade) sell_price2 reason now
      in case res of
           Inl e \<Rightarrow> (st\<lparr>tm := tm1\<rparr>, Inl e)
         | Inr closed_trade \<Rightarrow>
             (let st1 = st\<lparr>tm := tm1\<rparr>;
                  st2 = st1\<lparr>monitor := clear_reference_price (monitor st1) (asset trade)\<rparr>
              in (st2\<lparr>pending_outcomes := pending_outcomes st2 - {condition_id trade}\<rparr>,
                  Inr ())))"

text \<open>
  \<open>_check_outcomes\<close>. The loop runs over the list \<open>get_open_trades()\<close> returned before the
  first iteration. Its state is the strategy, the set \<open>resolved_ids\<close> and, added here to make
  the network reads visible, the list of condition ids for which \<open>check_market_resolved\<close> was
  called. An exception of a resolve method leaves the loop and the method.
\<close>

fun check_outcomes_loop ::
  "(string \<Rightarrow> string option) \<Rightarrow> real \<Rightarrow> Trade list \<Rightarrow> Strategy \<Rightarrow> string set \<Rightarrow> string list
     \<Rightarrow> (Strategy \<times> string set \<times> string list) \<times> (error + unit)" where
  "check_outcomes_loop resolved now [] st resolved_ids polled =
     ((st, resolved_ids, polled), Inr ())"
| "check_outcomes_loop resolved now (trade # rest) st resolved_ids polled =
     (if condition_id trade \<notin> pending_outcomes st
        then check_outcomes_loop resolved now rest st resolved_ids polled
      else if now < close_timestamp trade
        then check_outcomes_loop resolved now rest st resolved_ids polled
      else
        (let polled1 = polled @ [condition_id trade]
         in case resolved (condition_id trade) of
              None \<Rightarrow> check_outcomes_loop resolved now rest st resolved_ids polled1
            | Some outcome \<Rightarrow>
                (let resolved_ids1 = insert (condition_id trade) resolved_ids;
                     st1 = st\<lparr>monitor := clear_reference_price (monitor st) (asset trade)\<rparr>;
                     (tm1, res) =
                       (if outcome = ''YES'' then resolve_win (tm st1) (trade_id trade) now
                        else resolve_loss (tm st1) (trade_id trade) now);
                     st2 = st1\<lparr>tm := tm1\<rparr>
                 in case res of
                      Inl e \<Rightarrow> ((st2, resolved_ids1, polled1), Inl e)
                    | Inr closed_trade \<Rightarrow>
                        check_outcomes_loop resolved now rest st2 resolved_ids1 polled1)))"

definition check_outcomes ::
  "Strategy \<Rightarrow> (string \<Rightarrow> string option) \<Rightarrow> real \<Rightarrow> (Strategy \<times> string list) \<times> (error + unit)" where
  "check_outcomes st resolved now =
     (case check_outcomes_loop resolved now (get_open_trades (tm st)) st {} [] of
        ((st1, resolved_ids, polled), Inl e) \<Rightarrow> ((st1, polled), Inl e)
      | ((st1, resolved_ids, polled), Inr u) \<Rightarrow>
          ((st1\<lparr>pending_outcomes := pending_outcomes st1 - resolved_ids\<rparr>, polled), Inr ()))"

text \<open>
  The body of the scanner loop for one watched market: an expired market is dropped, a market
  already traded is skipped, and a market that \<open>_should_enter\<close> accepts is bought. \<open>buy_resp\<close>
  is the book \<open>_execute_buy\<close> reads again before it places the order.
\<close>

definition scan_market ::
  "config \<Rightarrow> Strategy \<Rightarrow> MarketInfo \<Rightarrow> real \<Rightarrow> orderbook option \<Rightarrow> orderbook option
     \<Rightarrow> orderbook option \<Rightarrow> error + string \<Rightarrow> Strategy" where
  "scan_market cfg st market now ask_resp depth_resp buy_resp post =
     (if is_expired market now
        then st\<lparr>active_markets := AList.delete (MarketInfo.condition_id market) (active_markets st)\<rparr>
      else if already_traded (tm st) (MarketInfo.condition_id market) then st
      else
        (let (ok, reason) = should_enter cfg st market now ask_resp depth_resp
         in if ok then execute_buy cfg st market now buy_resp post else st))"

text \<open>
  The body of the position monitor loop for one open trade: past the close time plus 30
  seconds the trade is left to the outcome checker; otherwise a reason of \<open>_check_cutloss\<close>
  starts the cut-loss.
\<close>

definition monitor_trade ::
  "config \<Rightarrow> Strategy \<Rightarrow> Trade \<Rightarrow> real \<Rightarrow> orderbook option \<Rightarrow> orderbook option \<Rightarrow> error + string
     \<Rightarrow> Strategy \<times> (error + unit)" where
  "monitor_trade cfg st trade now ask_resp depth_resp post =
     (if now \<ge> close_timestamp trade + 30 then (st, Inr ())
      else
        (case check_cutloss cfg (monitor st) trade ask_resp of
           None \<Rightarrow> (st, Inr ())
         | Some reason \<Rightarrow> execute_cutloss st trade reason now depth_resp post))"

subsection \<open>Sequences of calls on the ledger\<close>

text \<open>
  A process is the trade manager in memory together with the file \<^verbatim>\<open>trades.json\<close>, which does
  not exist (\<open>None\<close>) until a method has written it. Every mutating method ends with \<open>_save\<close>,
  which replaces the file by the document of the new state; the write is taken to succeed. A
  closing method that raises \<open>KeyError\<close> does so before \<open>_save\<close>, and the file stays as it is.
\<close>

type_synonym process = "TradeManager \<times> document option"

definition fresh_process :: "real \<Rightarrow> process" where
  "fresh_process starting_balance = (init_manager starting_balance, None)"

definition after_save :: "TradeManager \<Rightarrow> process" where
  "after_save led = (led, Some (save led))"

definition after_resolve :: "document option \<Rightarrow> TradeManager \<times> (error + Trade) \<Rightarrow> process" where
  "after_resolve file r =
     (case snd r of
        Inl e \<Rightarrow> (fst r, file)
      | Inr t \<Rightarrow> after_save (fst r))"

text \<open>
  One call of a public method of the trade manager, with its arguments and the time at which
  it runs. \<open>Restart\<close> is the end of the process and the construction of a new
  \<open>TradeManager\<close> with the given starting balance, which reads the file if there is one.
\<close>

datatype ledger_call =
    Open string string string string string string string string
         real real real string string real real real
  | ResolveWin string real
  | ResolveLoss string real
  | ResolveCutloss string real cutloss_why real
  | SetBalance real
  | Restart real

fun call :: "process \<Rightarrow> ledger_call \<Rightarrow> process" where
  "call (led, file) (Open cid oid a d mt ml ots cts bp sh sz y n ct bep now) =
     after_save (fst (open_trade led cid oid a d mt ml ots cts bp sh sz y n ct bep now))"
| "call (led, file) (ResolveWin tid now) = after_resolve file (resolve_win led tid now)"
| "call (led, file) (ResolveLoss tid now) = after_resolve file (resolve_loss led tid now)"
| "call (led, file) (ResolveCutloss tid sp why now) =
     after_resolve file (resolve_cutloss led tid sp why now)"
| "call (led, file) (SetBalance b) = after_save (set_balance led b)"
| "call (led, file) (Restart starting_balance) = (new_manager starting_balance file, file)"

definition calls :: "process \<Rightarrow> ledger_call list \<Rightarrow> process" where
  "calls p cs = foldl call p cs"

subsection \<open>Properties of a ledger\<close>

text \<open>No two positions of the ledger are on the same market.\<close>

definition one_position_per_market :: "TradeManager \<Rightarrow> bool" where
  "one_position_per_market led = distinct (map (\<lambda>kv. condition_id (snd kv)) (trades led))"

text \<open>
  The bookkeeping of a ledger is sound: the keys of the dictionary are distinct, every trade is
  stored under its own id, and no id that the counter has yet to issue is in use.
\<close>

definition sound_ids :: "TradeManager \<Rightarrow> bool" where
  "sound_ids led =
     (distinct (map fst (trades led))
      \<and> list_all (\<lambda>kv. trade_id (snd kv) = fst kv) (trades led)
      \<and> (\<forall>n. trade_counter led < n \<longrightarrow> trade_id_of n \<notin> fst ` set (trades led)))"

text \<open>
  A process is sound when its ledger is and the file, once written, holds the document of the
  ledger; as long as there is no file, the ledger is empty.
\<close>

definition sound_process :: "process \<Rightarrow> bool" where
  "sound_process p =
     (sound_ids (fst p)
      \<and> (case snd p of
            None \<Rightarrow> trades (fst p) = [] \<and> trade_counter (fst p) = 0
          | Some data \<Rightarrow> data = save (fst p)))"

text \<open>Reading a formatted counter back: the value of a digit and of a digit string.\<close>

definition digit_val :: "char \<Rightarrow> nat" where
  "digit_val c = of_char c - 48"

definition parse_nat :: "string \<Rightarrow> nat" where
  "parse_nat cs = foldl (\<lambda>acc c. 10 * acc + digit_val c) 0 cs"

subsection \<open>The entry checks as the specification lists them\<close>

text \<open>
  The six checks of the entry evaluator in the words of the specification, each on the values
  the evaluator reads, and the number of the first check that fails.
\<close>

definition spec_time_window :: "config \<Rightarrow> MarketInfo \<Rightarrow> real \<Rightarrow> bool" where
  "spec_time_window cfg market now =
     (seconds_to_close market now \<le> of_int (get_entry_window cfg (MarketInfo.market_type market))
      \<and> seconds_to_close market now > 5)"

definition spec_market_unique :: "TradeManager \<Rightarrow> MarketInfo \<Rightarrow> bool" where
  "spec_market_unique led market =
     (\<not> list_ex (\<lambda>kv. condition_id (snd kv) = MarketInfo.condition_id market) (trades led))"

definition spec_ask_price :: "config \<Rightarrow> real option \<Rightarrow> bool" where
  "spec_ask_price cfg best_ask =
     (case best_ask of None \<Rightarrow> False | Some ask \<Rightarrow> ask \<ge> BUY_THRESHOLD cfg \<and> ask < 1)"

definition spec_spread :: "real option \<Rightarrow> bool" where
  "spec_spread sp = (case sp of None \<Rightarrow> True | Some s \<Rightarrow> s \<le> 0.05)"

definition spec_momentum :: "string \<Rightarrow> real option \<Rightarrow> bool" where
  "spec_momentum dir trend =
     (case trend of
        None \<Rightarrow> True
      | Some tr \<Rightarrow> (if dir = ''UP'' then tr \<ge> - 0.002 else if dir = ''DOWN'' then tr \<le> 0.002 else True))"

definition spec_spot_price :: "real option \<Rightarrow> bool" where
  "spec_spot_price spot = (spot \<noteq> None)"

definition spec_first_failure ::
  "config \<Rightarrow> Strategy \<Rightarrow> MarketInfo \<Rightarrow> real \<Rightarrow> orderbook option \<Rightarrow> orderbook option \<Rightarrow> nat option" where
  "spec_first_failure cfg st market now ask_resp depth_resp =
     (if \<not> spec_time_window cfg market now then Some 1
      else if \<not> spec_market_unique (tm st) market then Some 2
      else if \<not> spec_ask_price cfg (get_best_ask ask_resp) then Some 3
      else if \<not> spec_spread (spread (get_orderbook_depth depth_resp)) then Some 4
      else if \<not> spec_momentum (MarketInfo.direction market)
                  (get_1min_trend (monitor st) (MarketInfo.asset market) now) then Some 5
      else if \<not> spec_spot_price (get_price (monitor st) (MarketInfo.asset market)) then Some 6
      else None)"

text \<open>The check a reason of \<open>_should_enter\<close> belongs to; \<open>None\<close> for the reason of an entry.\<close>

fun check_of_reason :: "entry_reason \<Rightarrow> nat option" where
  "check_of_reason (TooEarly s w) = Some 1"
| "check_of_reason TooLate = Some 1"
| "check_of_reason AlreadyTraded = Some 2"
| "check_of_reason NoOrderBook = Some 3"
| "check_of_reason (PriceTooLow a b) = Some 3"
| "check_of_reason PriceAtOne = Some 3"
| "check_of_reason (SpreadTooWide s) = Some 4"
| "check_of_reason (BinanceDropping a tr) = Some 5"
| "check_of_reason (BinanceRising a tr) = Some 5"
| "check_of_reason (BinanceNoPrice a) = Some 6"
| "check_of_reason (EntryOK ask a tr) = None"

subsection \<open>Which side a cut-loss reason comes from\<close>



subsection \<open>Concrete markets, books and runs\<close>

text \<open>
  Two BTC markets that are open for entry at the same time: a 15-minute UP market closing at
  time 900 and a 5-minute DOWN market closing at time 700.
\<close>

definition market_a :: MarketInfo where
  "market_a =
     \<lparr>MarketInfo.condition_id = ''mA'', asset = ''BTC'', direction = ''UP'', market_type = ''15m'',
      yes_token_id = ''yA'', no_token_id = ''nA'', close_time = 900,
      open_time_str = ''Feb 26, 11:25 AM ET'', close_time_str = ''11:40 AM ET''\<rparr>"

definition market_b :: MarketInfo where
  "market_b =
     \<lparr>MarketInfo.condition_id = ''mB'', asset = ''BTC'', direction = ''DOWN'', market_type = ''5m'',
      yes_token_id = ''yB'', no_token_id = ''nB'', close_time = 700,
      open_time_str = ''Feb 26, 11:32 AM ET'', close_time_str = ''11:37 AM ET''\<rparr>"

text \<open>A book with the best bid at 96 cents and the best ask at 98 cents.\<close>

definition book_98 :: "orderbook option" where
  "book_98 = Some \<lparr>book_bids = [(0.96, 50)], book_asks = [(0.98, 50)]\<rparr>"

text \<open>A book whose best bid, 70 cents, is below the floor of 80 cents and whose best ask,
  85 cents, is above it.\<close>

definition book_70_85 :: "orderbook option" where
  "book_70_85 = Some \<lparr>book_bids = [(0.70, 100)], book_asks = [(0.85, 100)]\<rparr>"

text \<open>The feed has seen BTC at 50000 at time 590; nothing has been traded.\<close>

definition strategy_0 :: Strategy where
  "strategy_0 =
     new_strategy (init_manager 100) (process_tick init_monitor ''BTC'' 50000 590)"

text \<open>Market A is bought at time 600.\<close>

definition strategy_a :: Strategy where
  "strategy_a = execute_buy default_config strategy_0 market_a 600 book_98 (Inr ''o1'')"

text \<open>BTC ticks at 49900 at time 650, and market B is bought at time 660.\<close>

definition strategy_a_tick :: Strategy where
  "strategy_a_tick =
     strategy_a\<lparr>monitor := process_tick (monitor strategy_a) ''BTC'' 49900 650\<rparr>"

definition strategy_ab :: Strategy where
  "strategy_ab = execute_buy default_config strategy_a_tick market_b 660 book_98 (Inr ''o2'')"

text \<open>BTC ticks at 49850 at time 680: 0.3 per cent below its price when market A was bought.\<close>

definition strategy_ab_tick :: Strategy where
  "strategy_ab_tick =
     strategy_ab\<lparr>monitor := process_tick (monitor strategy_ab) ''BTC'' 49850 680\<rparr>"

text \<open>
  The process stops after market A was bought and starts again: a new trade manager is built
  from the file, a new strategy from the trade manager.
\<close>

definition strategy_restarted :: Strategy where
  "strategy_restarted =
     new_strategy (new_manager 90 (Some (save (tm strategy_a))))
       (process_tick init_monitor ''BTC'' 50000 950)"

text \<open>A venue on which every market has resolved YES.\<close>

definition all_yes :: "string \<Rightarrow> string option" where
  "all_yes cid = Some ''YES''"

text \<open>One position of 10.309 shares bought at 97 cents for 10 USDC, on a ledger of 100 USDC.\<close>

definition opened_097 :: "TradeManager \<times> Trade" where
  "opened_097 =
     open_trade (init_manager 100) ''m1'' ''o1'' ''BTC'' ''UP'' ''5m''
       ''BTC Up or Down - 5 Minutes'' ''Feb 26, 11:35 AM ET'' ''11:40 AM ET''
       0.97 10.309 10 ''y1'' ''n1'' 1000 50000 900"

text \<open>That position resolved as a win at time 1001: the ledger, and the trade as it then is.\<close>

definition won_097 :: TradeManager where
  "won_097 = fst (resolve_win (fst opened_097) ''T0001'' 1001)"

definition won_trade_097 :: Trade where
  "won_trade_097 =
     \<lparr>trade_id = ''T0001'', condition_id = ''m1'', order_id = ''o1'', asset = ''BTC'',
      direction = ''UP'', market_type = ''5m'', market_label = ''BTC Up or Down - 5 Minutes'',
      open_time_str = ''Feb 26, 11:35 AM ET'', close_time_str = ''11:40 AM ET'',
      buy_price = 0.97, shares = 10.309, size_usdc = 10, yes_token_id = ''y1'',
      no_token_id = ''n1'', close_timestamp = 1000, entry_time = 900,
      binance_entry_price = 50000, status = ''win'', sell_price = Some 1,
      pnl_usdc = Some 0.30927, resolved_at = Some 1001, cutloss_reason = None\<rparr>"

text \<open>The ledger after two calls of \<open>open_trade\<close> for the same market.\<close>

definition opened_twice :: TradeManager where
  "opened_twice =
     fst (calls (fresh_process 100)
       [Open ''m1'' ''o1'' ''BTC'' ''UP'' ''5m'' ''BTC Up or Down - 5 Minutes''
          ''Feb 26, 11:35 AM ET'' ''11:40 AM ET'' 0.97 10.31 10 ''y1'' ''n1'' 1000 50000 900,
        Open ''m1'' ''o2'' ''BTC'' ''UP'' ''5m'' ''BTC Up or Down - 5 Minutes''
          ''Feb 26, 11:35 AM ET'' ''11:40 AM ET'' 0.98 10.2 10 ''y1'' ''n1'' 1000 50010 910])"

text \<open>The two trades that these purchases record.\<close>

definition trade_a :: Trade where
  "trade_a =
     \<lparr>trade_id = ''T0001'', condition_id = ''mA'', order_id = ''o1'', asset = ''BTC'',
      direction = ''UP'', market_type = ''15m'', market_label = ''BTC Up or Down - 15 Minutes'',
      open_time_str = ''Feb 26, 11:25 AM ET'', close_time_str = ''11:40 AM ET'',
      buy_price = 0.98, shares = 10.2, size_usdc = 10, yes_token_id = ''yA'',
      no_token_id = ''nA'', close_timestamp = 900, entry_time = 600,
      binance_entry_price = 50000, status = ''open'', sell_price = None, pnl_usdc = None,
      resolved_at = None, cutloss_reason = None\<rparr>"

definition trade_b :: Trade where
  "trade_b =
     \<lparr>trade_id = ''T0002'', condition_id = ''mB'', order_id = ''o2'', asset = ''BTC'',
      direction = ''DOWN'', market_type = ''5m'', market_label = ''BTC Up or Down - 5 Minutes'',
      open_time_str = ''Feb 26, 11:32 AM ET'', close_time_str = ''11:37 AM ET'',
      buy_price = 0.98, shares = 10.2, size_usdc = 10, yes_token_id = ''yB'',
      no_token_id = ''nB'', close_timestamp = 700, entry_time = 660,
      binance_entry_price = 49900, status = ''open'', sell_price = None, pnl_usdc = None,
      resolved_at = None, cutloss_reason = None\<rparr>"








section \<open>Lemmas\<close>

subsection \<open>Association lists\<close>

lemma map_of_update_same: "map_of (AList.update k v al) k = Some v"
  by (simp add: AList.update_conv')

lemma update_fresh_key: "k \<notin> fst ` set al \<Longrightarrow> AList.update k v al = al @ [(k, v)]"
  by (induction al) auto

lemma update_keeps_projection:
  "map_of al k = Some v \<Longrightarrow> f (k, v') = f (k, v) \<Longrightarrow> map f (AList.update k v' al) = map f al"
  by (induction al) (auto split: if_splits)

lemma update_distinct_projection:
  "distinct (map f al) \<Longrightarrow> f (k, v) \<notin> f ` set al \<Longrightarrow> distinct (map f (AList.update k v al))"
proof (induction al)
  case Nil
  then show ?case by simp
next
  case (Cons p ps)
  show ?case
  proof (cases "fst p = k")
    case True
    with Cons.prems show ?thesis by auto
  next
    case False
    have "set (AList.update k v ps) \<subseteq> insert (k, v) (set ps)"
      by (induction ps) auto
    with Cons False show ?thesis by auto
  qed
qed

lemma update_keeps_list_all:
  "list_all P al \<Longrightarrow> P (k, v) \<Longrightarrow> list_all P (AList.update k v al)"
  by (induction al) auto

lemma list_all_map_of:
  "list_all P al \<Longrightarrow> map_of al k = Some v \<Longrightarrow> P (k, v)"
  by (induction al) (auto split: if_splits)

subsection \<open>Trade ids are issued once\<close>

text \<open>Reading a formatted counter back gives the counter, so two counters never format to
  the same id.\<close>

lemma digit_val_digit_char: "d < 10 \<Longrightarrow> digit_val (digit_char d) = d"
  by (simp add: digit_val_def digit_char_def)

lemma parse_nat_snoc: "parse_nat (cs @ [c]) = 10 * parse_nat cs + digit_val c"
  by (simp add: parse_nat_def)

lemma parse_nat_digits: "parse_nat (digits n) = n"
proof (induction n rule: digits.induct)
  case (1 n)
  show ?case
  proof (cases "n < 10")
    case True
    then show ?thesis
      by (subst digits.simps) (simp add: parse_nat_def digit_val_digit_char)
  next
    case False
    then have "parse_nat (digits (n div 10)) = n div 10"
      using "1.IH" by simp
    with False show ?thesis
      by (subst digits.simps) (simp add: parse_nat_snoc digit_val_digit_char)
  qed
qed

lemma parse_nat_zeros: "parse_nat (replicate k (CHR ''0'') @ cs) = parse_nat cs"
proof -
  have "foldl (\<lambda>acc c. 10 * acc + digit_val c) 0 (replicate k (CHR ''0'')) = 0"
    by (induction k) (simp_all add: digit_val_def)
  then show ?thesis
    by (simp add: parse_nat_def)
qed

lemma parse_nat_format_04d: "parse_nat (format_04d n) = n"
  by (simp add: format_04d_def parse_nat_zeros parse_nat_digits)

lemma trade_id_of_inj: "trade_id_of m = trade_id_of n \<Longrightarrow> m = n"
  by (metis parse_nat_format_04d trade_id_of_def list.inject)

subsection \<open>What the writes of the ledger change\<close>

lemmas resolve_defs = resolve_win_def resolve_loss_def resolve_cutloss_def

lemma open_trade_trades:
  "trades (fst (open_trade led cid oid a d mt ml ots cts bp sh sz y n ct bep now))
     = AList.update (trade_id_of (Suc (trade_counter led)))
         (snd (open_trade led cid oid a d mt ml ots cts bp sh sz y n ct bep now)) (trades led)"
  by (simp add: open_trade_def new_id_def Let_def)

lemma open_trade_result:
  "condition_id (snd (open_trade led cid oid a d mt ml ots cts bp sh sz y n ct bep now)) = cid
   \<and> trade_id (snd (open_trade led cid oid a d mt ml ots cts bp sh sz y n ct bep now))
       = trade_id_of (Suc (trade_counter led))
   \<and> trade_counter (fst (open_trade led cid oid a d mt ml ots cts bp sh sz y n ct bep now))
       = Suc (trade_counter led)"
  by (simp add: open_trade_def new_id_def Let_def)

lemma already_traded_iff:
  "already_traded led cid \<longleftrightarrow> cid \<in> set (map (\<lambda>kv. condition_id (snd kv)) (trades led))"
  by (auto simp: already_traded_def list_ex_iff)

lemma already_traded_after_open:
  "already_traded (fst (open_trade led cid oid a d mt ml ots cts bp sh sz y n ct bep now)) cid"
proof -
  let ?r = "open_trade led cid oid a d mt ml ots cts bp sh sz y n ct bep now"
  have "map_of (trades (fst ?r)) (trade_id_of (Suc (trade_counter led))) = Some (snd ?r)"
    by (simp add: open_trade_trades map_of_update_same)
  then have "(trade_id_of (Suc (trade_counter led)), snd ?r) \<in> set (trades (fst ?r))"
    by (rule map_of_SomeD)
  then show ?thesis
    using open_trade_result [of led cid oid a d mt ml ots cts bp sh sz y n ct bep now]
    by (force simp: already_traded_iff)
qed

lemma resolve_projection:
  "map (\<lambda>kv. condition_id (snd kv)) (trades (fst (resolve_win led tid now)))
     = map (\<lambda>kv. condition_id (snd kv)) (trades led)"
  "map (\<lambda>kv. condition_id (snd kv)) (trades (fst (resolve_loss led tid now)))
     = map (\<lambda>kv. condition_id (snd kv)) (trades led)"
  "map (\<lambda>kv. condition_id (snd kv)) (trades (fst (resolve_cutloss led tid sp why now)))
     = map (\<lambda>kv. condition_id (snd kv)) (trades led)"
  by (simp_all add: resolve_defs Let_def update_keeps_projection split: option.splits)

lemma resolve_keys:
  "map fst (trades (fst (resolve_win led tid now))) = map fst (trades led)"
  "map fst (trades (fst (resolve_loss led tid now))) = map fst (trades led)"
  "map fst (trades (fst (resolve_cutloss led tid sp why now))) = map fst (trades led)"
  by (simp_all add: resolve_defs Let_def update_keeps_projection split: option.splits)

lemma resolve_counter:
  "trade_counter (fst (resolve_win led tid now)) = trade_counter led"
  "trade_counter (fst (resolve_loss led tid now)) = trade_counter led"
  "trade_counter (fst (resolve_cutloss led tid sp why now)) = trade_counter led"
  by (simp_all add: resolve_defs Let_def split: option.splits)

lemma resolve_own_ids:
  assumes "list_all (\<lambda>kv. trade_id (snd kv) = fst kv) (trades led)"
  shows "list_all (\<lambda>kv. trade_id (snd kv) = fst kv) (trades (fst (resolve_win led tid now)))"
    and "list_all (\<lambda>kv. trade_id (snd kv) = fst kv) (trades (fst (resolve_loss led tid now)))"
    and "list_all (\<lambda>kv. trade_id (snd kv) = fst kv) (trades (fst (resolve_cutloss led tid sp why now)))"
  using assms list_all_map_of [OF assms, of tid]
  by (auto simp: resolve_defs Let_def split: option.splits intro!: update_keeps_list_all)

subsection \<open>The bookkeeping stays sound\<close>

lemma sound_ids_init: "sound_ids (init_manager b)"
  by (simp add: sound_ids_def init_manager_def)

lemma sound_ids_fresh:
  "sound_ids led \<Longrightarrow> trade_id_of (Suc (trade_counter led)) \<notin> fst ` set (trades led)"
  by (simp add: sound_ids_def)

lemma sound_ids_open:
  assumes "sound_ids led"
  shows "sound_ids (fst (open_trade led cid oid a d mt ml ots cts bp sh sz y n ct bep now))"
proof -
  let ?r = "open_trade led cid oid a d mt ml ots cts bp sh sz y n ct bep now"
  let ?k = "trade_id_of (Suc (trade_counter led))"
  have fresh: "?k \<notin> fst ` set (trades led)"
    using assms by (rule sound_ids_fresh)
  have tr: "trades (fst ?r) = trades led @ [(?k, snd ?r)]"
    by (simp add: open_trade_trades update_fresh_key [OF fresh])
  have res: "trade_id (snd ?r) = ?k" "trade_counter (fst ?r) = Suc (trade_counter led)"
    using open_trade_result [of led cid oid a d mt ml ots cts bp sh sz y n ct bep now] by simp_all
  have "distinct (map fst (trades (fst ?r)))"
    using assms fresh by (simp add: tr sound_ids_def)
  moreover have "list_all (\<lambda>kv. trade_id (snd kv) = fst kv) (trades (fst ?r))"
    using assms by (simp add: tr res sound_ids_def)
  moreover have "trade_id_of m \<notin> fst ` set (trades (fst ?r))" if "trade_counter (fst ?r) < m" for m
  proof -
    from that have "trade_counter led < m" "m \<noteq> Suc (trade_counter led)"
      by (simp_all add: res)
    then have "trade_id_of m \<notin> fst ` set (trades led)" "trade_id_of m \<noteq> ?k"
      using assms trade_id_of_inj by (auto simp: sound_ids_def)
    then show ?thesis by (simp add: tr)
  qed
  ultimately show ?thesis
    by (simp add: sound_ids_def)
qed

lemma sound_ids_resolve:
  assumes "sound_ids led"
  shows "sound_ids (fst (resolve_win led tid now))"
    and "sound_ids (fst (resolve_loss led tid now))"
    and "sound_ids (fst (resolve_cutloss led tid sp why now))"
proof -
  have own: "list_all (\<lambda>kv. trade_id (snd kv) = fst kv) (trades led)"
    using assms by (simp add: sound_ids_def)
  have keys: "fst ` set (trades l) = set (map fst (trades l))" for l :: TradeManager
    by simp
  show "sound_ids (fst (resolve_win led tid now))"
    using assms resolve_own_ids(1) [OF own, of tid now]
    unfolding sound_ids_def keys resolve_keys resolve_counter by simp
  show "sound_ids (fst (resolve_loss led tid now))"
    using assms resolve_own_ids(2) [OF own, of tid now]
    unfolding sound_ids_def keys resolve_keys resolve_counter by simp
  show "sound_ids (fst (resolve_cutloss led tid sp why now))"
    using assms resolve_own_ids(3) [OF own, of tid sp why now]
    unfolding sound_ids_def keys resolve_keys resolve_counter by simp
qed

text \<open>Loading what was saved gives the ledger back.\<close>

lemma load_trades_append:
  "distinct (map fst d @ map trade_id ts)
     \<Longrightarrow> load_trades d ts = d @ map (\<lambda>t. (trade_id t, t)) ts"
proof (induction ts arbitrary: d)
  case Nil
  then show ?case by simp
next
  case (Cons t ts)
  from Cons.prems have fresh: "trade_id t \<notin> fst ` set d"
    by auto
  have "load_trades (d @ [(trade_id t, t)]) ts = (d @ [(trade_id t, t)]) @ map (\<lambda>t. (trade_id t, t)) ts"
    using Cons.prems by (intro Cons.IH) auto
  then show ?case
    by (simp add: update_fresh_key [OF fresh])
qed

lemma own_ids_rebuild:
  "list_all (\<lambda>kv. trade_id (snd kv) = fst kv) al \<Longrightarrow> map ((\<lambda>t. (trade_id t, t)) \<circ> snd) al = al"
  by (induction al) auto

lemma own_ids_keys:
  "list_all (\<lambda>kv. trade_id (snd kv) = fst kv) al \<Longrightarrow> map (trade_id \<circ> snd) al = map fst al"
  by (induction al) auto

lemma restart_keeps_ledger:
  assumes "sound_ids led"
  shows "new_manager b (Some (save led)) = led"
proof -
  have own: "list_all (\<lambda>kv. trade_id (snd kv) = fst kv) (trades led)"
    and dist: "distinct (map fst (trades led))"
    using assms by (simp_all add: sound_ids_def)
  have "load_trades [] (map snd (trades led)) = trades led"
    using load_trades_append [of "[]" "map snd (trades led)"] dist
    by (simp add: own_ids_keys [OF own] own_ids_rebuild [OF own])
  then show ?thesis
    by (simp add: new_manager_def load_def save_def init_manager_def)
qed

lemma resolve_raises_unchanged:
  "snd (resolve_win led tid now) = Inl e \<Longrightarrow> fst (resolve_win led tid now) = led"
  "snd (resolve_loss led tid now) = Inl e \<Longrightarrow> fst (resolve_loss led tid now) = led"
  "snd (resolve_cutloss led tid sp why now) = Inl e \<Longrightarrow> fst (resolve_cutloss led tid sp why now) = led"
  by (simp_all add: resolve_defs Let_def split: option.splits)

lemma sound_process_fresh: "sound_process (fresh_process b)"
  using sound_ids_init [of b] by (simp add: sound_process_def fresh_process_def init_manager_def)

lemma sound_process_after_save: "sound_ids led \<Longrightarrow> sound_process (after_save led)"
  by (simp add: sound_process_def after_save_def)

lemma sound_process_after_resolve:
  assumes "sound_process (led, fl)" and "sound_ids (fst r)"
    and "\<And>e. snd r = Inl e \<Longrightarrow> fst r = led"
  shows "sound_process (after_resolve fl r)"
proof (cases "snd r")
  case (Inl e)
  with assms(1,3) show ?thesis
    by (simp add: after_resolve_def)
next
  case (Inr t)
  with assms(2) show ?thesis
    by (simp add: after_resolve_def sound_process_after_save)
qed

lemma fst_after_resolve: "fst (after_resolve fl r) = fst r"
  by (simp add: after_resolve_def after_save_def split: sum.splits)

lemma restart_process:
  assumes "sound_process (led, fl)"
  shows "sound_process (new_manager b fl, fl)"
    and "already_traded led cid \<Longrightarrow> already_traded (new_manager b fl) cid"
proof -
  show "sound_process (new_manager b fl, fl)"
  proof (cases fl)
    case None
    then show ?thesis
      using sound_process_fresh [of b]
      by (simp add: new_manager_def load_def fresh_process_def)
  next
    case (Some data)
    with assms have "sound_ids led" "data = save led"
      by (simp_all add: sound_process_def)
    with Some assms show ?thesis
      by (simp add: restart_keeps_ledger)
  qed
  show "already_traded (new_manager b fl) cid" if "already_traded led cid"
  proof (cases fl)
    case None
    with assms have "trades led = []"
      by (simp add: sound_process_def)
    with that show ?thesis
      by (simp add: already_traded_def)
  next
    case (Some data)
    with assms have "sound_ids led" "data = save led"
      by (simp_all add: sound_process_def)
    with Some that show ?thesis
      by (simp add: restart_keeps_ledger)
  qed
qed

lemma sound_process_call:
  assumes "sound_process p"
  shows "sound_process (call p c)"
proof -
  obtain led fl where p: "p = (led, fl)"
    by (cases p)
  from assms have led: "sound_ids led"
    by (simp add: p sound_process_def)
  show ?thesis
  proof (cases c)
    case (Open cid oid a d mt ml ots cts bp sh sz y n ct bep now)
    with led show ?thesis
      by (simp add: p sound_process_after_save sound_ids_open)
  next
    case (ResolveWin tid now)
    with assms led show ?thesis
      by (simp add: p sound_process_after_resolve sound_ids_resolve resolve_raises_unchanged)
  next
    case (ResolveLoss tid now)
    with assms led show ?thesis
      by (simp add: p sound_process_after_resolve sound_ids_resolve resolve_raises_unchanged)
  next
    case (ResolveCutloss tid sp why now)
    with assms led show ?thesis
      by (simp add: p sound_process_after_resolve sound_ids_resolve resolve_raises_unchanged)
  next
    case (SetBalance b)
    from led have "sound_ids (set_balance led b)"
      by (simp add: set_balance_def sound_ids_def)
    with SetBalance show ?thesis
      by (simp add: p sound_process_after_save)
  next
    case (Restart b)
    with assms show ?thesis
      by (simp add: p restart_process(1))
  qed
qed

lemma sound_process_calls: "sound_process p \<Longrightarrow> sound_process (calls p cs)"
  unfolding calls_def by (induction cs arbitrary: p) (simp_all add: sound_process_call)

lemma already_traded_after_open_call:
  "already_traded
     (fst (call p (Open cid oid a d mt ml ots cts bp sh sz y n ct bep now))) cid"
  by (cases p) (simp add: after_save_def already_traded_after_open)

lemma already_traded_call:
  assumes "sound_process p" and "already_traded (fst p) cid"
  shows "already_traded (fst (call p c)) cid"
proof -
  obtain led fl where p: "p = (led, fl)"
    by (cases p)
  from assms have led: "sound_ids led" and at: "already_traded led cid"
    by (simp_all add: p sound_process_def)
  show ?thesis
  proof (cases c)
    case (Open cid' oid a d mt ml ots cts bp sh sz y n ct bep now)
    let ?r = "open_trade led cid' oid a d mt ml ots cts bp sh sz y n ct bep now"
    have "trades (fst ?r) = trades led @ [(trade_id_of (Suc (trade_counter led)), snd ?r)]"
      using sound_ids_fresh [OF led] by (simp add: open_trade_trades update_fresh_key)
    with at show ?thesis
      by (simp add: p Open after_save_def already_traded_iff)
  next
    case (SetBalance b)
    with at show ?thesis
      by (simp add: p after_save_def already_traded_def set_balance_def)
  next
    case (Restart b)
    with assms at show ?thesis
      by (simp add: p restart_process(2))
  qed (use at in \<open>simp_all add: p fst_after_resolve already_traded_iff resolve_projection\<close>)
qed

lemma already_traded_calls:
  "sound_process p \<Longrightarrow> already_traded (fst p) cid \<Longrightarrow> already_traded (fst (calls p cs)) cid"
  unfolding calls_def
  by (induction cs arbitrary: p) (simp_all add: sound_process_call already_traded_call)

subsection \<open>The concrete runs, evaluated\<close>

lemma trades_strategy_a: "trades (tm strategy_a) = [(''T0001'', trade_a)]"
  by code_simp

lemma open_trades_strategy_a: "get_open_trades (tm strategy_a) = [trade_a]"
  by code_simp

lemma open_trades_strategy_ab: "get_open_trades (tm strategy_ab_tick) = [trade_a, trade_b]"
  by code_simp

section \<open>The claims\<close>

subsection \<open>The ledger\<close>

text \<open>
  Claim C1, as the code has it. The three closing methods do not look at the status of a
  position. Called with a trade id that is not a key of the ledger, each raises \<open>KeyError\<close>
  and leaves the ledger, the balance included, as it was. Called with an id that is in the
  ledger, each goes through whatever the status of the position and adds the payout to the
  balance: the shares for a win, nothing for a loss, the shares times the sell price for a
  cut-loss. So each fails exactly when the id is not in the ledger.
\<close>

theorem resolve_fails_only_on_missing_id:
  "(map_of (trades led) tid = None \<longrightarrow>
      resolve_win led tid now = (led, Inl (KeyError tid))
      \<and> resolve_loss led tid now = (led, Inl (KeyError tid))
      \<and> resolve_cutloss led tid sp why now = (led, Inl (KeyError tid)))
   \<and> (map_of (trades led) tid = Some t \<longrightarrow>
        \<not> isl (snd (resolve_win led tid now))
        \<and> balance (fst (resolve_win led tid now)) = balance led + shares t
        \<and> \<not> isl (snd (resolve_loss led tid now))
        \<and> balance (fst (resolve_loss led tid now)) = balance led
        \<and> \<not> isl (snd (resolve_cutloss led tid sp why now))
        \<and> balance (fst (resolve_cutloss led tid sp why now)) = balance led + shares t * sp)
   \<and> (isl (snd (resolve_win led tid now)) \<longleftrightarrow> map_of (trades led) tid = None)
   \<and> (isl (snd (resolve_loss led tid now)) \<longleftrightarrow> map_of (trades led) tid = None)
   \<and> (isl (snd (resolve_cutloss led tid sp why now)) \<longleftrightarrow> map_of (trades led) tid = None)"
  by (auto simp: resolve_defs Let_def split: option.splits)

text \<open>
  On the ledger that holds the position \<open>T0001\<close>, already resolved as a win: the id \<open>T0002\<close> is
  not in the ledger and the three methods fail on it; the id \<open>T0001\<close> is, and the three methods
  go through and credit the payout.
\<close>

theorem resolve_fails_only_on_missing_id_witness:
  "map_of (trades won_097) ''T0002'' = None
   \<and> resolve_win won_097 ''T0002'' 1002 = (won_097, Inl (KeyError ''T0002''))
   \<and> resolve_loss won_097 ''T0002'' 1002 = (won_097, Inl (KeyError ''T0002''))
   \<and> resolve_cutloss won_097 ''T0002'' 0.5 (PolymarketDropped 0.5 0.8) 1002
       = (won_097, Inl (KeyError ''T0002''))
   \<and> map_of (trades won_097) ''T0001'' = Some won_trade_097
   \<and> status won_trade_097 = ''win''
   \<and> \<not> isl (snd (resolve_win won_097 ''T0001'' 1002))
   \<and> balance (fst (resolve_win won_097 ''T0001'' 1002)) = balance won_097 + 10.309
   \<and> \<not> isl (snd (resolve_loss won_097 ''T0001'' 1002))
   \<and> balance (fst (resolve_loss won_097 ''T0001'' 1002)) = balance won_097
   \<and> \<not> isl (snd (resolve_cutloss won_097 ''T0001'' 0.5 (PolymarketDropped 0.5 0.8) 1002))
   \<and> balance (fst (resolve_cutloss won_097 ''T0001'' 0.5 (PolymarketDropped 0.5 0.8) 1002))
       = balance won_097 + 10.309 * 0.5"
proof -
  have missing: "map_of (trades won_097) ''T0002'' = None"
    by code_simp
  have present: "map_of (trades won_097) ''T0001'' = Some won_trade_097"
    by code_simp
  have facts: "status won_trade_097 = ''win''" "shares won_trade_097 = 10.309"
    by (simp_all add: won_trade_097_def)
  show ?thesis
    using resolve_fails_only_on_missing_id
        [of won_097 "''T0002''" 1002 "0.5" "PolymarketDropped 0.5 0.8" won_trade_097]
      resolve_fails_only_on_missing_id
        [of won_097 "''T0001''" 1002 "0.5" "PolymarketDropped 0.5 0.8" won_trade_097]
    by (simp add: missing present facts)
qed

text \<open>
  Claim C1 as the specification states it fails: the position \<open>T0001\<close> is closed as a win at
  time 1001, and a second \<open>resolve_win\<close> at time 1002 does not fail and credits the 10.309
  shares once more.
\<close>

theorem second_resolve_counterexample:
  "map_option status (map_of (trades (fst (resolve_win (fst opened_097) ''T0001'' 1001))) ''T0001'')
     = Some ''win''
   \<and> \<not> isl (snd (resolve_win (fst (resolve_win (fst opened_097) ''T0001'' 1001)) ''T0001'' 1002))
   \<and> balance (fst (resolve_win (fst opened_097) ''T0001'' 1001)) = 100.309
   \<and> balance (fst (resolve_win (fst (resolve_win (fst opened_097) ''T0001'' 1001)) ''T0001'' 1002))
     = 110.618"
  by code_simp

text \<open>
  Claim C4. A position is opened and then closed by one of the three closing methods on the
  id that \<open>open_trade\<close> returned. The trade is open after \<open>open_trade\<close>, which has taken the
  committed size off the balance; the closing call succeeds, and the balance after it is the
  balance before the opening minus the committed size plus the payout: the shares times 1 for
  a win, nothing for a loss, the shares times the sell price for a cut-loss. The profit recorded
  for a win is the shares times one minus the buy price.
\<close>

theorem open_then_resolve_balance:
  "let opened = open_trade led cid oid a d mt ml ots cts bp sh sz y n ct bep t0;
       led1 = fst opened; tid = trade_id (snd opened)
   in status (snd opened) = ''open''
      \<and> balance led1 = balance led - sz
      \<and> (\<exists>t. resolve_win led1 tid t1 = (fst (resolve_win led1 tid t1), Inr t)
             \<and> status t = ''win'' \<and> pnl_usdc t = Some (sh * (1 - bp))
             \<and> balance (fst (resolve_win led1 tid t1)) = balance led - sz + sh * 1)
      \<and> (\<exists>t. resolve_loss led1 tid t1 = (fst (resolve_loss led1 tid t1), Inr t)
             \<and> status t = ''loss'' \<and> pnl_usdc t = Some (- sz)
             \<and> balance (fst (resolve_loss led1 tid t1)) = balance led - sz + 0)
      \<and> (\<exists>t. resolve_cutloss led1 tid sp why t1 = (fst (resolve_cutloss led1 tid sp why t1), Inr t)
             \<and> status t = ''cutloss'' \<and> pnl_usdc t = Some (sh * sp - sz)
             \<and> balance (fst (resolve_cutloss led1 tid sp why t1)) = balance led - sz + sh * sp)"
  by (simp add: open_trade_def new_id_def resolve_defs Let_def map_of_update_same)

text \<open>
  The scenario of the specification: 10.309 shares bought at 97 cents and resolved YES credit
  the balance by 10.309.
\<close>

theorem open_then_resolve_balance_witness:
  "balance (fst opened_097) = 100 - 10
   \<and> balance (fst (resolve_win (fst opened_097) (trade_id (snd opened_097)) 1001))
       = 100 - 10 + 10.309 * 1"
proof -
  have "balance (fst opened_097) = balance (init_manager 100) - 10
        \<and> balance (fst (resolve_win (fst opened_097) (trade_id (snd opened_097)) 1001))
            = balance (init_manager 100) - 10 + 10.309 * 1"
    using open_then_resolve_balance
      [of "init_manager 100" "''m1''" "''o1''" "''BTC''" "''UP''" "''5m''"
          "''BTC Up or Down - 5 Minutes''" "''Feb 26, 11:35 AM ET''" "''11:40 AM ET''"
          "0.97" "10.309" 10 "''y1''" "''n1''" 1000 50000 900 1001 0 "PolymarketDropped 0 0"]
    unfolding Let_def opened_097_def by blast
  then show ?thesis
    by (simp add: init_manager_def)
qed

text \<open>
  Claim C8, as the code has it. \<open>open_trade\<close> makes no check of its own. That no two positions
  are on the same market is kept by the callers: \<open>open_trade\<close> keeps it when it is called for a
  market for which \<open>already_traded\<close> is false, the three closing methods keep it, and so does
  the scanner, which buys a market only after \<open>already_traded\<close> was false for it.
\<close>

theorem one_position_per_market_by_callers:
  "(one_position_per_market led \<and> \<not> already_traded led cid \<longrightarrow>
      one_position_per_market (fst (open_trade led cid oid a d mt ml ots cts bp sh sz y n ct bep now)))
   \<and> (one_position_per_market led \<longrightarrow>
        one_position_per_market (fst (resolve_win led tid now))
        \<and> one_position_per_market (fst (resolve_loss led tid now))
        \<and> one_position_per_market (fst (resolve_cutloss led tid sp why now)))
   \<and> (one_position_per_market (tm st) \<longrightarrow>
        one_position_per_market (tm (scan_market cfg st market now ask_resp depth_resp buy_resp post)))"
proof -
  have opn: "one_position_per_market
               (fst (open_trade l c oid' a' d' mt' ml' ots' cts' bp' sh' sz' y' n' ct' bep' now'))"
    if "one_position_per_market l" "\<not> already_traded l c"
    for l c oid' a' d' mt' ml' ots' cts' bp' sh' sz' y' n' ct' bep' now'
  proof -
    let ?r = "open_trade l c oid' a' d' mt' ml' ots' cts' bp' sh' sz' y' n' ct' bep' now'"
    have "condition_id (snd ?r) = c"
      using open_trade_result [of l c] by simp
    moreover have "c \<notin> (\<lambda>kv. condition_id (snd kv)) ` set (trades l)"
      using that(2) by (simp add: already_traded_iff)
    ultimately show ?thesis
      using that(1) unfolding one_position_per_market_def open_trade_trades
      by (intro update_distinct_projection) simp_all
  qed
  have scanning:
    "one_position_per_market (tm (scan_market cfg st market now ask_resp depth_resp buy_resp post))"
    if "one_position_per_market (tm st)"
    using that opn [of "tm st" "MarketInfo.condition_id market"]
    by (auto simp: scan_market_def execute_buy_def Let_def split_def
        split: option.splits sum.splits)
  show ?thesis
    using opn scanning
    by (simp add: one_position_per_market_def resolve_projection)
qed

text \<open>
  On ledgers that hold positions. With the position on market A in the ledger, market B is
  not yet traded and \<open>open_trade\<close> for it leaves one position on each market; so does the
  scanner when it buys market B. When the scanner meets market A again, it buys nothing. With
  both positions in the ledger, closing one keeps one position on each market.
\<close>

theorem one_position_per_market_by_callers_witness:
  "one_position_per_market (tm strategy_a)
   \<and> \<not> already_traded (tm strategy_a) ''mB''
   \<and> one_position_per_market
        (fst (open_trade (tm strategy_a) ''mB'' ''o2'' ''BTC'' ''DOWN'' ''5m''
                ''BTC Up or Down - 5 Minutes'' ''Feb 26, 11:32 AM ET'' ''11:37 AM ET''
                0.98 10.2 10 ''yB'' ''nB'' 700 49900 660))
   \<and> one_position_per_market (tm strategy_ab)
   \<and> map (condition_id \<circ> snd) (trades (tm strategy_ab)) = [''mA'', ''mB'']
   \<and> one_position_per_market (fst (resolve_win (tm strategy_ab) ''T0001'' 950))
   \<and> one_position_per_market (fst (resolve_loss (tm strategy_ab) ''T0002'' 710))
   \<and> one_position_per_market
        (fst (resolve_cutloss (tm strategy_ab) ''T0001'' 0.7 (PolymarketDropped 0.75 0.8) 670))
   \<and> one_position_per_market (tm strategy_a_tick)
   \<and> one_position_per_market
        (tm (scan_market default_config strategy_a_tick market_b 660 book_98 book_98 book_98
               (Inr ''o2'')))
   \<and> map (condition_id \<circ> snd)
        (trades (tm (scan_market default_config strategy_a_tick market_b 660 book_98 book_98
                       book_98 (Inr ''o2''))))
       = [''mA'', ''mB'']
   \<and> map (condition_id \<circ> snd)
        (trades (tm (scan_market default_config strategy_ab market_a 670 book_98 book_98
                       book_98 (Inr ''o3''))))
       = [''mA'', ''mB'']"
proof -
  have h1: "one_position_per_market (tm strategy_a) \<and> \<not> already_traded (tm strategy_a) ''mB''"
    by code_simp
  have h2: "one_position_per_market (tm strategy_ab)"
    by code_simp
  have h3: "one_position_per_market (tm strategy_a_tick)"
    by code_simp
  have ev: "map (condition_id \<circ> snd) (trades (tm strategy_ab)) = [''mA'', ''mB'']"
    "map (condition_id \<circ> snd)
       (trades (tm (scan_market default_config strategy_a_tick market_b 660 book_98 book_98
                      book_98 (Inr ''o2''))))
      = [''mA'', ''mB'']"
    "map (condition_id \<circ> snd)
       (trades (tm (scan_market default_config strategy_ab market_a 670 book_98 book_98
                      book_98 (Inr ''o3''))))
      = [''mA'', ''mB'']"
    by code_simp+
  have c1: "one_position_per_market
              (fst (open_trade (tm strategy_a) ''mB'' ''o2'' ''BTC'' ''DOWN'' ''5m''
                      ''BTC Up or Down - 5 Minutes'' ''Feb 26, 11:32 AM ET'' ''11:37 AM ET''
                      0.98 10.2 10 ''yB'' ''nB'' 700 49900 660))"
    using h1 one_position_per_market_by_callers [where led = "tm strategy_a" and cid = "''mB''"]
    by simp
  have c2: "one_position_per_market (fst (resolve_win (tm strategy_ab) ''T0001'' 950))"
    "one_position_per_market (fst (resolve_loss (tm strategy_ab) ''T0002'' 710))"
    "one_position_per_market
       (fst (resolve_cutloss (tm strategy_ab) ''T0001'' 0.7 (PolymarketDropped 0.75 0.8) 670))"
    using h2 one_position_per_market_by_callers [where led = "tm strategy_ab"]
    by simp_all
  have c3: "one_position_per_market
              (tm (scan_market default_config strategy_a_tick market_b 660 book_98 book_98 book_98
                     (Inr ''o2'')))"
    using h3 one_position_per_market_by_callers [where st = strategy_a_tick]
    by simp
  show ?thesis
    using h1 h2 h3 ev c1 c2 c3 by simp
qed

text \<open>
  Claim C8 as the specification states it fails: two calls of \<open>open_trade\<close> for the market
  \<open>m1\<close> leave two positions on that market in the ledger.
\<close>

theorem open_twice_counterexample:
  "map fst (trades opened_twice) = [''T0001'', ''T0002'']
   \<and> map (condition_id \<circ> snd) (trades opened_twice) = [''m1'', ''m1'']
   \<and> \<not> one_position_per_market opened_twice"
  by code_simp

text \<open>
  Claim C9. A process starts with an empty ledger and no file, and goes through any calls of
  the ledger's methods, restarts of the process included. A position is then opened for a
  market, and any further calls and restarts follow. \<open>already_traded\<close> is true for that market
  at the end: in particular right after the opening, when no call follows, and after the
  position was closed.
\<close>

theorem already_traded_forever:
  "already_traded
     (fst (calls (call (calls (fresh_process b) before)
                    (Open cid oid a d mt ml ots cts bp sh sz y n ct bep now)) after)) cid"
proof -
  let ?p = "calls (fresh_process b) before"
  let ?q = "call ?p (Open cid oid a d mt ml ots cts bp sh sz y n ct bep now)"
  have "sound_process ?p"
    by (rule sound_process_calls) (rule sound_process_fresh)
  then have "sound_process ?q"
    by (rule sound_process_call)
  then show ?thesis
    by (rule already_traded_calls) (rule already_traded_after_open_call)
qed

text \<open>
  A run with a restart before anything was written, a position on \<open>m1\<close> that is closed twice,
  a restart from the file and a position on another market.
\<close>

theorem already_traded_forever_witness:
  "already_traded
     (fst (calls (call (calls (fresh_process 100) [Restart 40, SetBalance 50])
                    (Open ''m1'' ''o1'' ''BTC'' ''UP'' ''5m'' ''BTC Up or Down - 5 Minutes''
                       ''Feb 26, 11:35 AM ET'' ''11:40 AM ET'' 0.97 10.309 10 ''y1'' ''n1''
                       1000 50000 900))
             [ResolveLoss ''T0001'' 1001, Restart 40, ResolveWin ''T0001'' 1002,
              Open ''m2'' ''o2'' ''ETH'' ''DOWN'' ''15m'' ''ETH Up or Down - 15 Minutes''
                ''Feb 26, 11:40 AM ET'' ''11:55 AM ET'' 0.98 10.2 10 ''y2'' ''n2''
                1900 3000 1700])) ''m1''"
  by (rule already_traded_forever)

subsection \<open>The entry evaluator\<close>

text \<open>
  Claim C6. \<open>_should_enter\<close> accepts a market exactly when none of the six checks of the
  specification fails, and when one fails the reason it returns belongs to the first check
  that fails, in the order time window, market uniqueness, ask price, spread, momentum, spot
  price.
\<close>

theorem should_enter_refines_spec:
  "fst (should_enter cfg st market now ask_resp depth_resp)
     = (spec_first_failure cfg st market now ask_resp depth_resp = None)
   \<and> check_of_reason (snd (should_enter cfg st market now ask_resp depth_resp))
     = spec_first_failure cfg st market now ask_resp depth_resp"
  unfolding should_enter_def spec_first_failure_def Let_def
  by (auto simp: spec_time_window_def spec_market_unique_def already_traded_def list_ex_iff
      spec_ask_price_def spec_spread_def spread_too_wide_def spec_momentum_def momentum_veto_def
      spec_spot_price_def split: option.splits if_splits)

text \<open>
  Market A is accepted at time 600, when no check fails; at time 100 it is 800 seconds from
  its close and the time window fails; once it is traded, uniqueness fails.
\<close>

theorem should_enter_refines_spec_witness:
  "spec_first_failure default_config strategy_0 market_a 600 book_98 book_98 = None
   \<and> fst (should_enter default_config strategy_0 market_a 600 book_98 book_98)
   \<and> spec_first_failure default_config strategy_0 market_a 100 book_98 book_98 = Some 1
   \<and> \<not> fst (should_enter default_config strategy_0 market_a 100 book_98 book_98)
   \<and> spec_first_failure default_config strategy_a market_a 650 book_98 book_98 = Some 2
   \<and> snd (should_enter default_config strategy_a market_a 650 book_98 book_98) = AlreadyTraded"
proof -
  have f: "spec_first_failure default_config strategy_0 market_a 600 book_98 book_98 = None"
    "spec_first_failure default_config strategy_0 market_a 100 book_98 book_98 = Some 1"
    "spec_first_failure default_config strategy_a market_a 650 book_98 book_98 = Some 2"
    by code_simp+
  have r: "snd (should_enter default_config strategy_a market_a 650 book_98 book_98) = AlreadyTraded"
    by code_simp
  show ?thesis
    using should_enter_refines_spec [of default_config strategy_0 market_a 600 book_98 book_98]
      should_enter_refines_spec [of default_config strategy_0 market_a 100 book_98 book_98]
    by (simp add: f r)
qed

subsection \<open>The exit supervisor\<close>




text \<open>
  Claim C10. The trade is in the ledger and the sell order of the cut-loss raises. The
  cut-loss still completes: the position is recorded as \<open>cutloss\<close> with a sell price of 0, its
  profit is minus the committed size, and the balance is what it was, a payout of zero having
  been added.
\<close>

theorem cutloss_recorded_when_sell_fails:
  assumes "map_of (trades (tm st)) (trade_id trade) = Some t0"
  shows "let r = execute_cutloss st trade why now depth_resp (Inl e)
         in snd r = Inr ()
            \<and> map_option status (map_of (trades (tm (fst r))) (trade_id trade)) = Some ''cutloss''
            \<and> map_option sell_price (map_of (trades (tm (fst r))) (trade_id trade)) = Some (Some 0)
            \<and> map_option pnl_usdc (map_of (trades (tm (fst r))) (trade_id trade))
                = Some (Some (- size_usdc t0))
            \<and> balance (tm (fst r)) = balance (tm st)"
  using assms
  by (simp add: execute_cutloss_def sell_yes_def resolve_cutloss_def Let_def map_of_update_same)

theorem cutloss_recorded_when_sell_fails_witness:
  "map_of (trades (tm strategy_a)) (trade_id trade_a) = Some trade_a
   \<and> map_option status
        (map_of (trades (tm (fst (execute_cutloss strategy_a trade_a (PolymarketDropped 0.7 0.8)
                                    650 book_70_85 (Inl OrderError)))))
           (trade_id trade_a)) = Some ''cutloss''
   \<and> map_option pnl_usdc
        (map_of (trades (tm (fst (execute_cutloss strategy_a trade_a (PolymarketDropped 0.7 0.8)
                                    650 book_70_85 (Inl OrderError)))))
           (trade_id trade_a)) = Some (Some (- 10))
   \<and> balance (tm (fst (execute_cutloss strategy_a trade_a (PolymarketDropped 0.7 0.8)
                          650 book_70_85 (Inl OrderError)))) = 90"
proof -
  have h: "map_of (trades (tm strategy_a)) (trade_id trade_a) = Some trade_a"
    by code_simp
  have facts: "size_usdc trade_a = 10" "balance (tm strategy_a) = 90"
    by code_simp+
  show ?thesis
    using cutloss_recorded_when_sell_fails
      [OF h, of "PolymarketDropped 0.7 0.8" 650 book_70_85 OrderError]
    by (simp add: h facts Let_def)
qed

subsection \<open>Where the code departs from its own description\<close>

text \<open>
  Claim C3, at a failing input. The open position of market A is checked against a book whose
  best bid, 70 cents, is below the floor of 80 cents while its best ask, 85 cents, is above.
  \<open>_check_cutloss\<close> reads the best ask and returns no reason.
\<close>

theorem market_side_reads_ask_not_bid:
  "map fst (bids (get_orderbook_depth book_70_85)) = [0.70]
   \<and> 0.70 < CUTLOSS_PM_PRICE default_config
   \<and> get_best_ask book_70_85 = Some 0.85
   \<and> get_open_trades (tm strategy_a) = [trade_a]
   \<and> check_cutloss default_config (monitor strategy_a) trade_a book_70_85 = None"
  by code_simp

text \<open>
  Claim C2, at a failing input. The process restarts after market A was bought; the file
  holds the open position, which closes at time 900. At time 2000 the outcome pass of the new
  strategy calls \<open>check_market_resolved\<close> for no market and changes nothing, on a venue where
  the market has resolved. The strategy that bought the market, in the same pass, asks for
  market A and records the win.
\<close>

theorem reloaded_position_never_polled:
  "get_open_trades (tm strategy_restarted) = [trade_a]
   \<and> close_timestamp trade_a < 2000
   \<and> snd (fst (check_outcomes strategy_restarted all_yes 2000)) = []
   \<and> tm (fst (fst (check_outcomes strategy_restarted all_yes 2000))) = tm strategy_restarted
   \<and> get_open_trades (tm (fst (fst (check_outcomes strategy_restarted all_yes 2000)))) = [trade_a]
   \<and> snd (fst (check_outcomes strategy_a all_yes 2000)) = [''mA'']
   \<and> map (status \<circ> snd) (trades (tm (fst (fst (check_outcomes strategy_a all_yes 2000)))))
       = [''win'']"
  by code_simp

text \<open>
  Claim C7, at a failing input. The entry evaluator accepts market A at time 600 and market B
  at time 660. Market A is bought with BTC at 50000, which becomes the reference price. While that position is open, market B, also on BTC, is bought with BTC at
  49900, and the reference price becomes 49900. At 49850 BTC is 0.3 per cent below the entry
  of position A, the threshold, but the change the feed reports is minus 1/998 and no
  cut-loss fires for A. When B resolves at time 710 the reference price is cleared, and A,
  still open, has no change since entry at all.
\<close>

theorem reference_price_overwritten:
  "fst (should_enter default_config strategy_0 market_a 600 book_98 book_98)
   \<and> fst (should_enter default_config strategy_a_tick market_b 660 book_98 book_98)
   \<and> price_at_buy (monitor strategy_a) ''BTC'' = Some 50000
   \<and> price_at_buy (monitor strategy_ab) ''BTC'' = Some 49900
   \<and> get_open_trades (tm strategy_ab_tick) = [trade_a, trade_b]
   \<and> get_price (monitor strategy_ab_tick) ''BTC'' = Some 49850
   \<and> (49850 - binance_entry_price trade_a) / binance_entry_price trade_a
       \<le> - CUTLOSS_BINANCE_PCT default_config
   \<and> get_change_pct (monitor strategy_ab_tick) (asset trade_a) = Some (- (1 / 998))
   \<and> check_cutloss default_config (monitor strategy_ab_tick) trade_a book_98 = None
   \<and> get_open_trades (tm (fst (fst (check_outcomes strategy_ab_tick all_yes 710)))) = [trade_a]
   \<and> get_change_pct (monitor (fst (fst (check_outcomes strategy_ab_tick all_yes 710)))) (asset trade_a)
       = None"
  by code_simp

end
